theory Spec2Isabelle
  imports Main
begin

section \<open>Accounts and the users table\<close>

text \<open>
  Timestamps are the values of \<^verbatim>\<open>datetime.now(timezone.utc)\<close>, read as a number of
  seconds on the UTC time line; \<^verbatim>\<open>timedelta(hours=24)\<close> is 86400 and
  \<^verbatim>\<open>timedelta(minutes=30)\<close> is 1800. Only the order and the sums of timestamps are used
  by the code below.
\<close>

type_synonym timestamp = int

text \<open>
  The columns of \<^verbatim>\<open>models/user.py\<close> that the lifecycle code reads or writes. The
  primary key \<^verbatim>\<open>id\<close> is called \<open>uid\<close>. A nullable column is an \<open>option\<close>.
\<close>

record user =
  uid :: int
  email :: string
  username :: string
  hashed_password :: string
  is_active :: bool
  is_admin :: bool
  is_verified :: bool
  last_login :: "timestamp option"
  deletion_requested_at :: "timestamp option"
  deletion_scheduled_at :: "timestamp option"

text \<open>
  The users table is the list of its rows. \<^verbatim>\<open>db.query(User).filter(c).first()\<close> is
  \<open>find\<close>, \<^verbatim>\<open>.all()\<close> is \<open>filter\<close>. Flushing a modified row writes it back under
  its primary key, and \<^verbatim>\<open>db.delete(user)\<close> removes the rows with that primary key. The
  storage layer is taken to be reliable: every flush and commit goes through, so the
  handlers' \<^verbatim>\<open>except SQLAlchemyError\<close> branches have no counterpart here.
\<close>

type_synonym db = "user list"

definition db_update :: "user \<Rightarrow> db \<Rightarrow> db" where
  "db_update u d = map (\<lambda>r. if uid r = uid u then u else r) d"

definition db_delete :: "user \<Rightarrow> db \<Rightarrow> db" where
  "db_delete u d = filter (\<lambda>r. uid r \<noteq> uid u) d"

definition get_user_by_id :: "db \<Rightarrow> int \<Rightarrow> user option" where
  "get_user_by_id d i = find (\<lambda>u. uid u = i) d"

definition get_user_by_username :: "db \<Rightarrow> string \<Rightarrow> user option" where
  "get_user_by_username d n = find (\<lambda>u. username u = n) d"

definition get_user_by_email :: "db \<Rightarrow> string \<Rightarrow> user option" where
  "get_user_by_email d e = find (\<lambda>u. email u = e) d"

definition hours24 :: timestamp where
  "hours24 = 24 * 3600"

section \<open>The deletion scheduler (services/deletion\_scheduler.py)\<close>

text \<open>
  \<^verbatim>\<open>process_pending_deletions\<close>: the query selects the rows with
  \<^verbatim>\<open>deletion_scheduled_at IS NOT NULL AND deletion_scheduled_at <= now\<close>; the loop
  deletes each selected row and commits. The function returns nothing; the model returns
  the table after the loop and the count the function logs.
\<close>

definition deletion_due :: "timestamp \<Rightarrow> user \<Rightarrow> bool" where
  "deletion_due now u =
     (case deletion_scheduled_at u of None \<Rightarrow> False | Some t \<Rightarrow> t \<le> now)"

definition process_pending_deletions :: "timestamp \<Rightarrow> db \<Rightarrow> db \<times> nat" where
  "process_pending_deletions now d =
     (let users_to_delete = filter (deletion_due now) d
      in (fold db_delete users_to_delete d, length users_to_delete))"

text \<open>
  \<^verbatim>\<open>cleanup_expired_requests\<close>: the query selects the rows with
  \<^verbatim>\<open>deletion_requested_at IS NOT NULL AND deletion_scheduled_at IS NULL AND
  deletion_requested_at <= now\<close>; the loop sets \<^verbatim>\<open>deletion_requested_at\<close> of each to
  \<^verbatim>\<open>None\<close>, and one commit follows.
\<close>

definition request_expired :: "timestamp \<Rightarrow> user \<Rightarrow> bool" where
  "request_expired now u =
     (case deletion_requested_at u of
        None \<Rightarrow> False
      | Some r \<Rightarrow> deletion_scheduled_at u = None \<and> r \<le> now)"

definition cleanup_expired_requests :: "timestamp \<Rightarrow> db \<Rightarrow> db \<times> nat" where
  "cleanup_expired_requests now d =
     (let expired_requests = filter (request_expired now) d
      in (fold (\<lambda>u. db_update (u\<lparr>deletion_requested_at := None\<rparr>)) expired_requests d,
          length expired_requests))"

section \<open>Python values\<close>

text \<open>
  A Python string is a list of code points; every character the code handles lies below
  256, so a \<open>char\<close> is one code point (\<open>CHR 0xF3\<close> is the o with acute accent of the
  Spanish messages). The values a decoded JSON claim can hold are \<open>jvalue\<close>s (objects and
  floats are left out: no code path below distinguishes them from a list). A \<^verbatim>\<open>dict\<close>
  with string keys is an association list read with \<open>map_of\<close>.
\<close>

datatype jvalue = JNull | JBool bool | JInt int | JStr string | JList "jvalue list"

type_synonym claims = "(string \<times> jvalue) list"

datatype exn = ValueError | TypeError

fun dict_set :: "claims \<Rightarrow> string \<Rightarrow> jvalue \<Rightarrow> claims" where
  "dict_set [] k v = [(k, v)]"
| "dict_set ((k', v') # kvs) k v = (if k' = k then (k, v) # kvs else (k', v') # dict_set kvs k v)"

text \<open>Truth value of \<^verbatim>\<open>payload.get(k)\<close> in \<^verbatim>\<open>if not x\<close>.\<close>

fun truthy :: "jvalue option \<Rightarrow> bool" where
  "truthy None = False"
| "truthy (Some JNull) = False"
| "truthy (Some (JBool b)) = b"
| "truthy (Some (JInt n)) = (n \<noteq> 0)"
| "truthy (Some (JStr s)) = (s \<noteq> [])"
| "truthy (Some (JList xs)) = (xs \<noteq> [])"

definition py_isspace :: "char \<Rightarrow> bool" where
  "py_isspace c = ((of_char c :: nat) \<in> {9, 10, 11, 12, 13, 28, 29, 30, 31, 32, 133, 160})"

definition py_strip :: "string \<Rightarrow> string" where
  "py_strip s = rev (dropWhile py_isspace (rev (dropWhile py_isspace s)))"

definition is_digit :: "char \<Rightarrow> bool" where
  "is_digit c = (48 \<le> (of_char c :: nat) \<and> (of_char c :: nat) \<le> 57)"

definition is_alpha :: "char \<Rightarrow> bool" where
  "is_alpha c = ((65 \<le> (of_char c :: nat) \<and> (of_char c :: nat) \<le> 90)
               \<or> (97 \<le> (of_char c :: nat) \<and> (of_char c :: nat) \<le> 122))"

definition digit_val :: "char \<Rightarrow> int" where
  "digit_val c = int (of_char c) - 48"

text \<open>
  \<^verbatim>\<open>int(s)\<close> on a string: surrounding whitespace is dropped, a sign may lead, and the
  digits may be separated by single underscores; anything else is a \<^verbatim>\<open>ValueError\<close>
  (\<open>None\<close> here).
\<close>

fun parse_digits :: "int \<Rightarrow> string \<Rightarrow> int option" where
  "parse_digits acc [] = Some acc"
| "parse_digits acc [c] = (if is_digit c then Some (10 * acc + digit_val c) else None)"
| "parse_digits acc (c # e # cs) =
     (if is_digit c then parse_digits (10 * acc + digit_val c) (e # cs)
      else if c = CHR ''_'' \<and> is_digit e then parse_digits (10 * acc + digit_val e) cs
      else None)"

definition parse_unsigned :: "string \<Rightarrow> int option" where
  "parse_unsigned s =
     (case s of [] \<Rightarrow> None
      | c # cs \<Rightarrow> if is_digit c then parse_digits (digit_val c) cs else None)"

definition int_of_str :: "string \<Rightarrow> int option" where
  "int_of_str s =
     (case py_strip s of
        [] \<Rightarrow> None
      | c # cs \<Rightarrow>
          if c = CHR ''-'' then map_option uminus (parse_unsigned cs)
          else if c = CHR ''+'' then parse_unsigned cs
          else parse_unsigned (c # cs))"

fun py_int :: "jvalue \<Rightarrow> exn + int" where
  "py_int (JInt n) = Inr n"
| "py_int (JBool b) = Inr (if b then 1 else 0)"
| "py_int (JStr s) = (case int_of_str s of None \<Rightarrow> Inl ValueError | Some n \<Rightarrow> Inr n)"
| "py_int JNull = Inl TypeError"
| "py_int (JList xs) = Inl TypeError"

text \<open>\<^verbatim>\<open>str(n)\<close> on an integer: its decimal numeral.\<close>

function str_nat :: "nat \<Rightarrow> string" where
  "str_nat n = (if n < 10 then [char_of (48 + n)] else str_nat (n div 10) @ [char_of (48 + n mod 10)])"
  by pat_completeness auto
termination
  by (relation "measure id") auto

declare str_nat.simps [simp del]

definition py_str :: "int \<Rightarrow> string" where
  "py_str i = (if i < 0 then CHR ''-'' # str_nat (nat (- i)) else str_nat (nat i))"

section \<open>Email shape (core/security.py, validate\_email)\<close>

text \<open>
  Regular expressions with Brzozowski derivatives; \<^verbatim>\<open>EMAIL_REGEX.match(s)\<close> succeeds
  when \<open>s\<close> is in the language of the pattern, whose final \<^verbatim>\<open>$\<close> stands at the end of
  the string or before one last newline.
\<close>

datatype regex = Nul | Eps | Cls "char \<Rightarrow> bool" | Seq regex regex | Alt regex regex | Star regex

fun nullable :: "regex \<Rightarrow> bool" where
  "nullable Nul = False"
| "nullable Eps = True"
| "nullable (Cls P) = False"
| "nullable (Seq r s) = (nullable r \<and> nullable s)"
| "nullable (Alt r s) = (nullable r \<or> nullable s)"
| "nullable (Star r) = True"

fun deriv :: "char \<Rightarrow> regex \<Rightarrow> regex" where
  "deriv c Nul = Nul"
| "deriv c Eps = Nul"
| "deriv c (Cls P) = (if P c then Eps else Nul)"
| "deriv c (Seq r s) =
     (if nullable r then Alt (Seq (deriv c r) s) (deriv c s) else Seq (deriv c r) s)"
| "deriv c (Alt r s) = Alt (deriv c r) (deriv c s)"
| "deriv c (Star r) = Seq (deriv c r) (Star r)"

definition re_match :: "regex \<Rightarrow> string \<Rightarrow> bool" where
  "re_match r s = nullable (fold deriv s r)"

definition local_char :: "char \<Rightarrow> bool" where
  "local_char c = (is_alpha c \<or> is_digit c \<or> c \<in> set ''._%+-'')"

definition domain_char :: "char \<Rightarrow> bool" where
  "domain_char c = (is_alpha c \<or> is_digit c \<or> c \<in> set ''.-'')"

definition EMAIL_REGEX :: regex where
  "EMAIL_REGEX =
     Seq (Cls local_char) (Seq (Star (Cls local_char))
    (Seq (Cls (\<lambda>c. c = CHR ''@''))
    (Seq (Cls domain_char) (Seq (Star (Cls domain_char))
    (Seq (Cls (\<lambda>c. c = CHR ''.''))
    (Seq (Cls is_alpha) (Seq (Cls is_alpha) (Seq (Star (Cls is_alpha))
    (Alt Eps (Cls (\<lambda>c. c = CHR 0x0A)))))))))))"

definition validate_email :: "string \<Rightarrow> bool" where
  "validate_email e = (if e = [] then False else re_match EMAIL_REGEX (py_strip e))"

section \<open>Signed tokens\<close>

text \<open>
  Modelled from the spec: \<^verbatim>\<open>jwt.encode\<close> and \<^verbatim>\<open>jwt.decode\<close> of the jose library
  (section 4.1, TokenCodec), which is no part of the repository. A token string is either
  the encoding of a claim set signed under a key, or some other string. Decoding fails
  (\<^verbatim>\<open>JWTError\<close>) when the string is no signed claim set or was signed under another
  key, and fails with the subclass \<^verbatim>\<open>ExpiredSignatureError\<close> when the time is past
  the \<^verbatim>\<open>exp\<close> claim; otherwise it returns the claims.
\<close>

datatype token = Signed string claims | Malformed string

datatype jwt_error = JWTError | ExpiredSignatureError

definition jwt_encode :: "claims \<Rightarrow> string \<Rightarrow> token" where
  "jwt_encode to_encode key = Signed key to_encode"

definition jwt_decode :: "token \<Rightarrow> string \<Rightarrow> timestamp \<Rightarrow> jwt_error + claims" where
  "jwt_decode tok key now =
     (case tok of
        Malformed s \<Rightarrow> Inl JWTError
      | Signed k payload \<Rightarrow>
          if k \<noteq> key then Inl JWTError
          else (case map_of payload ''exp'' of
                  None \<Rightarrow> Inr payload
                | Some (JInt e) \<Rightarrow> if e < now then Inl ExpiredSignatureError else Inr payload
                | Some _ \<Rightarrow> Inl JWTError))"

text \<open>\<^verbatim>\<open>not token\<close>: the empty string.\<close>

definition empty_token :: "token \<Rightarrow> bool" where
  "empty_token tok = (tok = Malformed [])"

record settings =
  secret_key :: string
  access_token_expire_minutes :: int

section \<open>Token issuance and verification (core/security.py)\<close>

definition create_access_token :: "settings \<Rightarrow> timestamp \<Rightarrow> claims \<Rightarrow> int option \<Rightarrow> exn + token" where
  "create_access_token st now data expires_delta =
     (if data = [] then Inl ValueError
      else
        let expire = (case expires_delta of
                        None \<Rightarrow> now + 60 * access_token_expire_minutes st
                      | Some dt \<Rightarrow> if dt \<noteq> 0 then now + dt
                                  else now + 60 * access_token_expire_minutes st)
        in Inr (jwt_encode (dict_set data ''exp'' (JInt expire)) (secret_key st)))"

definition RESET_TOKEN_EXPIRE_MINUTES :: int where
  "RESET_TOKEN_EXPIRE_MINUTES = 30"

definition create_password_reset_token :: "settings \<Rightarrow> timestamp \<Rightarrow> string \<Rightarrow> exn + token" where
  "create_password_reset_token st now e =
     (if e = [] \<or> \<not> validate_email e then Inl ValueError
      else
        let expire = now + 60 * RESET_TOKEN_EXPIRE_MINUTES
        in Inr (jwt_encode [(''sub'', JStr e), (''exp'', JInt expire),
                            (''type'', JStr ''password_reset'')] (secret_key st)))"

definition verify_password_reset_token :: "settings \<Rightarrow> timestamp \<Rightarrow> token \<Rightarrow> jvalue option" where
  "verify_password_reset_token st now tok =
     (if empty_token tok then None
      else case jwt_decode tok (secret_key st) now of
             Inl err \<Rightarrow> None
           | Inr payload \<Rightarrow>
               if map_of payload ''type'' \<noteq> Some (JStr ''password_reset'') then None
               else map_of payload ''sub'')"

definition create_email_verification_token :: "settings \<Rightarrow> timestamp \<Rightarrow> string \<Rightarrow> exn + token" where
  "create_email_verification_token st now e =
     (if e = [] \<or> \<not> validate_email e then Inl ValueError
      else
        let expire = now + hours24
        in Inr (jwt_encode [(''sub'', JStr e), (''exp'', JInt expire),
                            (''type'', JStr ''email_verification'')] (secret_key st)))"

definition verify_email_verification_token :: "settings \<Rightarrow> timestamp \<Rightarrow> token \<Rightarrow> jvalue option" where
  "verify_email_verification_token st now tok =
     (if empty_token tok then None
      else case jwt_decode tok (secret_key st) now of
             Inl err \<Rightarrow> None
           | Inr payload \<Rightarrow>
               if map_of payload ''type'' \<noteq> Some (JStr ''email_verification'') then None
               else map_of payload ''sub'')"

definition EMAIL_CHANGE_TOKEN_EXPIRE_HOURS :: int where
  "EMAIL_CHANGE_TOKEN_EXPIRE_HOURS = 24"

definition create_email_change_token :: "settings \<Rightarrow> timestamp \<Rightarrow> int \<Rightarrow> string \<Rightarrow> exn + token" where
  "create_email_change_token st now user_id new_email =
     (if user_id = 0 \<or> user_id \<le> 0 then Inl ValueError
      else if new_email = [] \<or> \<not> validate_email new_email then Inl ValueError
      else
        let expire = now + 3600 * EMAIL_CHANGE_TOKEN_EXPIRE_HOURS
        in Inr (jwt_encode [(''sub'', JStr (py_str user_id)), (''new_email'', JStr new_email),
                            (''exp'', JInt expire), (''type'', JStr ''email_change'')]
                  (secret_key st)))"

text \<open>
  \<^verbatim>\<open>verify_email_change_token\<close> catches \<^verbatim>\<open>JWTError\<close> and \<^verbatim>\<open>ValueError\<close>; a
  \<^verbatim>\<open>TypeError\<close> of \<^verbatim>\<open>int(user_id)\<close> would leave the function (\<open>Inl\<close>).
\<close>

definition verify_email_change_token :: "settings \<Rightarrow> timestamp \<Rightarrow> token \<Rightarrow> exn + (int \<times> jvalue) option" where
  "verify_email_change_token st now tok =
     (if empty_token tok then Inr None
      else case jwt_decode tok (secret_key st) now of
             Inl err \<Rightarrow> Inr None
           | Inr payload \<Rightarrow>
               if map_of payload ''type'' \<noteq> Some (JStr ''email_change'') then Inr None
               else (case (map_of payload ''sub'', map_of payload ''new_email'') of
                       (Some user_id, Some new_email) \<Rightarrow>
                         if \<not> truthy (Some user_id) \<or> \<not> truthy (Some new_email) then Inr None
                         else (case py_int user_id of
                                 Inl ValueError \<Rightarrow> Inr None
                               | Inl TypeError \<Rightarrow> Inl TypeError
                               | Inr n \<Rightarrow> Inr (Some (n, new_email)))
                     | _ \<Rightarrow> Inr None))"

definition ACCOUNT_DELETION_TOKEN_EXPIRE_HOURS :: int where
  "ACCOUNT_DELETION_TOKEN_EXPIRE_HOURS = 24"

definition create_account_deletion_token :: "settings \<Rightarrow> timestamp \<Rightarrow> int \<Rightarrow> token" where
  "create_account_deletion_token st now user_id =
     (let expire = now + 3600 * ACCOUNT_DELETION_TOKEN_EXPIRE_HOURS
      in jwt_encode [(''sub'', JStr (py_str user_id)), (''exp'', JInt expire),
                     (''type'', JStr ''account_deletion'')] (secret_key st))"

definition verify_account_deletion_token :: "settings \<Rightarrow> timestamp \<Rightarrow> token \<Rightarrow> exn + int option" where
  "verify_account_deletion_token st now tok =
     (case jwt_decode tok (secret_key st) now of
        Inl err \<Rightarrow> Inr None
      | Inr payload \<Rightarrow>
          if map_of payload ''type'' \<noteq> Some (JStr ''account_deletion'') then Inr None
          else (case map_of payload ''sub'' of
                  None \<Rightarrow> Inr None
                | Some user_id \<Rightarrow>
                    if \<not> truthy (Some user_id) then Inr None
                    else (case py_int user_id of
                            Inl ValueError \<Rightarrow> Inr None
                          | Inl TypeError \<Rightarrow> Inl TypeError
                          | Inr n \<Rightarrow> Inr (Some n))))"

section \<open>Request handlers\<close>

text \<open>
  A handler returns its response or the failure it raises, the users table it leaves, and
  the background tasks it has queued. \<open>Unhandled\<close> is an exception no handler catches.
  A JSON response body is an association list; \<^verbatim>\<open>deletion_time.isoformat()\<close> is kept
  as the timestamp it renders.
\<close>

datatype failure = HTTPException nat string | Unhandled exn

datatype response = Json claims | AccessToken token string int

datatype task =
    SendAccountDeletionConfirmation string token
  | SendAccountDeletionCancelled string
  | SendResetEmail string token

type_synonym outcome = "(failure + response) \<times> db \<times> task list"

definition msg_not_found :: string where
  "msg_not_found = ''Usuario no encontrado''"

definition msg_forbidden :: string where
  "msg_forbidden = ''No tienes autorizaci'' @ [CHR 0xF3] @ ''n para realizar esta acci''
                   @ [CHR 0xF3] @ ''n''"

definition msg_already_requested :: string where
  "msg_already_requested = ''Ya existe una solicitud de eliminaci'' @ [CHR 0xF3] @ ''n pendiente''"

definition msg_nothing_to_cancel :: string where
  "msg_nothing_to_cancel = ''No hay ninguna eliminaci'' @ [CHR 0xF3]
                           @ ''n programada para cancelar''"

definition msg_no_pending_request :: string where
  "msg_no_pending_request = ''No hay solicitud de eliminaci'' @ [CHR 0xF3] @ ''n pendiente''"

definition msg_token_required :: string where
  "msg_token_required = ''Token requerido''"

definition msg_token_invalid :: string where
  "msg_token_invalid = ''Token inv'' @ [CHR 0xE1] @ ''lido o expirado''"

definition msg_bad_credentials :: string where
  "msg_bad_credentials = ''Nombre de usuario o contrase'' @ [CHR 0xF1] @ ''a incorrectos''"

definition msg_not_verified :: string where
  "msg_not_verified = ''Debes verificar tu correo antes de iniciar sesi'' @ [CHR 0xF3] @ ''n.''"

definition msg_deletion_requested :: string where
  "msg_deletion_requested =
     ''Solicitud de eliminaci'' @ [CHR 0xF3] @ ''n enviada. Tu cuenta ser'' @ [CHR 0xE1]
     @ '' eliminada en 24 horas. Revisa tu correo para confirmar o inicia sesi''
     @ [CHR 0xF3] @ ''n para cancelar.''"

definition msg_deletion_cancelled :: string where
  "msg_deletion_cancelled = ''Eliminaci'' @ [CHR 0xF3] @ ''n de cuenta cancelada correctamente''"

definition msg_deletion_confirmed :: string where
  "msg_deletion_confirmed =
     ''Eliminaci'' @ [CHR 0xF3] @ ''n confirmada. Tu cuenta ser'' @ [CHR 0xE1]
     @ '' eliminada autom'' @ [CHR 0xE1] @ ''ticamente en 24 horas.''"

definition msg_reset_sent :: string where
  "msg_reset_sent =
     ''Si el correo electr'' @ [CHR 0xF3] @ ''nico existe en nuestro sistema, recibir''
     @ [CHR 0xE1] @ ''s instrucciones para restablecer tu contrase'' @ [CHR 0xF1] @ ''a.''"

subsection \<open>routers/users.py\<close>

definition check_user_authorization :: "user \<Rightarrow> int \<Rightarrow> failure option" where
  "check_user_authorization current_user user_id =
     (if uid current_user \<noteq> user_id \<and> \<not> is_admin current_user
      then Some (HTTPException 403 msg_forbidden) else None)"

text \<open>
  \<^verbatim>\<open>request_account_deletion\<close>. \<^verbatim>\<open>log_user_activity\<close> writes to the activities table
  only and swallows its own exceptions, so it does not show in the users table.
\<close>

definition request_account_deletion :: "settings \<Rightarrow> timestamp \<Rightarrow> user \<Rightarrow> int \<Rightarrow> db \<Rightarrow> outcome" where
  "request_account_deletion st now current_user user_id d =
     (case check_user_authorization current_user user_id of
        Some err \<Rightarrow> (Inl err, d, [])
      | None \<Rightarrow>
         (case get_user_by_id d user_id of
            None \<Rightarrow> (Inl (HTTPException 404 msg_not_found), d, [])
          | Some u \<Rightarrow>
              if deletion_requested_at u \<noteq> None
              then (Inl (HTTPException 400 msg_already_requested), d, [])
              else
                let deletion_time = now + hours24;
                    u' = u\<lparr>deletion_requested_at := Some now,
                           deletion_scheduled_at := Some deletion_time\<rparr>;
                    tok = create_account_deletion_token st now user_id
                in (Inr (Json [(''message'', JStr msg_deletion_requested),
                               (''deletion_scheduled_at'', JInt deletion_time)]),
                    db_update u' d,
                    [SendAccountDeletionConfirmation (email u) tok])))"

definition cancel_account_deletion :: "user \<Rightarrow> int \<Rightarrow> db \<Rightarrow> outcome" where
  "cancel_account_deletion current_user user_id d =
     (case check_user_authorization current_user user_id of
        Some err \<Rightarrow> (Inl err, d, [])
      | None \<Rightarrow>
         (case get_user_by_id d user_id of
            None \<Rightarrow> (Inl (HTTPException 404 msg_not_found), d, [])
          | Some u \<Rightarrow>
              if deletion_requested_at u = None
              then (Inl (HTTPException 400 msg_nothing_to_cancel), d, [])
              else
                let u' = u\<lparr>deletion_requested_at := None, deletion_scheduled_at := None\<rparr>
                in (Inr (Json [(''message'', JStr msg_deletion_cancelled)]),
                    db_update u' d,
                    [SendAccountDeletionCancelled (email u)])))"

subsection \<open>routers/auth.py\<close>

text \<open>
  \<open>pwd_verify\<close> is \<^verbatim>\<open>pwd_context.verify\<close> of the passlib library, a parameter.
\<close>

definition verify_password :: "(string \<Rightarrow> string \<Rightarrow> bool) \<Rightarrow> string \<Rightarrow> string \<Rightarrow> bool" where
  "verify_password pwd_verify plain_password hashed =
     (if plain_password = [] \<or> hashed = [] then False else pwd_verify plain_password hashed)"

definition authenticate_user ::
  "(string \<Rightarrow> string \<Rightarrow> bool) \<Rightarrow> db \<Rightarrow> string \<Rightarrow> string \<Rightarrow> user option" where
  "authenticate_user pwd_verify d name password =
     (let found = (case get_user_by_username d name of
                     None \<Rightarrow> get_user_by_email d name
                   | Some u \<Rightarrow> Some u)
      in case found of
           None \<Rightarrow> None
         | Some u \<Rightarrow> if \<not> verify_password pwd_verify password (hashed_password u) then None
                     else Some u)"

definition login_for_access_token ::
  "(string \<Rightarrow> string \<Rightarrow> bool) \<Rightarrow> settings \<Rightarrow> timestamp \<Rightarrow> string \<Rightarrow> string \<Rightarrow> db \<Rightarrow> outcome" where
  "login_for_access_token pwd_verify st now form_username form_password d =
     (case authenticate_user pwd_verify d form_username form_password of
        None \<Rightarrow> (Inl (HTTPException 401 msg_bad_credentials), d, [])
      | Some u \<Rightarrow>
          if \<not> is_verified u then (Inl (HTTPException 401 msg_not_verified), d, [])
          else
            let u1 = u\<lparr>last_login := Some now\<rparr>;
                u2 = (if deletion_requested_at u1 \<noteq> None
                      then u1\<lparr>deletion_requested_at := None, deletion_scheduled_at := None\<rparr>
                      else u1);
                tasks = (if deletion_requested_at u1 \<noteq> None
                         then [SendAccountDeletionCancelled (email u1)] else []);
                d' = db_update u2 d
            in case create_access_token st now [(''sub'', JStr (username u2))]
                      (Some (60 * access_token_expire_minutes st)) of
                 Inl e \<Rightarrow> (Inl (Unhandled e), d', tasks)
               | Inr access_token \<Rightarrow>
                   (Inr (AccessToken access_token ''bearer''
                           (access_token_expire_minutes st * 60)), d', tasks))"

text \<open>
  \<^verbatim>\<open>confirm_account_deletion\<close>; \<open>token_data\<close> is \<^verbatim>\<open>token_data.get("token")\<close>.
\<close>

definition confirm_account_deletion :: "settings \<Rightarrow> timestamp \<Rightarrow> token option \<Rightarrow> db \<Rightarrow> outcome" where
  "confirm_account_deletion st now token_data d =
     (case token_data of
        None \<Rightarrow> (Inl (HTTPException 400 msg_token_required), d, [])
      | Some tok \<Rightarrow>
          if empty_token tok then (Inl (HTTPException 400 msg_token_required), d, [])
          else
            (case verify_account_deletion_token st now tok of
               Inl e \<Rightarrow> (Inl (Unhandled e), d, [])
             | Inr None \<Rightarrow> (Inl (HTTPException 400 msg_token_invalid), d, [])
             | Inr (Some user_id) \<Rightarrow>
                 (case get_user_by_id d user_id of
                    None \<Rightarrow> (Inl (HTTPException 404 msg_not_found), d, [])
                  | Some u \<Rightarrow>
                      if deletion_requested_at u = None
                      then (Inl (HTTPException 400 msg_no_pending_request), d, [])
                      else
                        let deletion_time = now + hours24;
                            u' = u\<lparr>deletion_scheduled_at := Some deletion_time\<rparr>
                        in (Inr (Json [(''msg'', JStr msg_deletion_confirmed),
                                       (''deletion_scheduled_at'', JInt deletion_time)]),
                            db_update u' d, []))))"

subsection \<open>routers/password\_reset.py\<close>

text \<open>
  \<^verbatim>\<open>request_password_reset\<close>. Every exception in its body is caught and answered
  with the standard message. \<open>activity_ok\<close> says whether building and committing the
  \<^verbatim>\<open>Activity\<close> row goes through (its constructor comes from a base class outside
  the sources); when it raises, the email task is not queued. The handler does not write
  to the users table.
\<close>

definition request_password_reset :: "settings \<Rightarrow> bool \<Rightarrow> timestamp \<Rightarrow> string \<Rightarrow> db \<Rightarrow> outcome" where
  "request_password_reset st activity_ok now data_email d =
     (case get_user_by_email d data_email of
        Some u \<Rightarrow>
          if is_active u then
            (case create_password_reset_token st now (email u) of
               Inl e \<Rightarrow> (Inr (Json [(''message'', JStr msg_reset_sent)]), d, [])
             | Inr tok \<Rightarrow>
                 if activity_ok
                 then (Inr (Json [(''message'', JStr msg_reset_sent)]), d,
                       [SendResetEmail (email u) tok])
                 else (Inr (Json [(''message'', JStr msg_reset_sent)]), d, []))
          else (Inr (Json [(''message'', JStr msg_reset_sent)]), d, [])
      | None \<Rightarrow> (Inr (Json [(''message'', JStr msg_reset_sent)]), d, []))"

section \<open>Example accounts\<close>

definition account :: "int \<Rightarrow> string \<Rightarrow> bool \<Rightarrow> timestamp option \<Rightarrow> timestamp option \<Rightarrow> user" where
  "account i n v r s =
     \<lparr>uid = i, email = n @ ''@eco.org'', username = n, hashed_password = ''h:'' @ n,
      is_active = True, is_admin = False, is_verified = v, last_login = None,
      deletion_requested_at = r, deletion_scheduled_at = s\<rparr>"

definition st0 :: settings where
  "st0 = \<lparr>secret_key = ''k'', access_token_expire_minutes = 30\<rparr>"

text \<open>A stand-in for the password hash check: the hash of \<open>p\<close> is \<open>h:p\<close>.\<close>

definition demo_verify :: "string \<Rightarrow> string \<Rightarrow> bool" where
  "demo_verify plain hashed = (hashed = ''h:'' @ plain)"

text \<open>The four kinds of token, as issued at time 0 for the account of the examples.\<close>

definition demo_reset_token :: token where
  "demo_reset_token = Signed ''k'' [(''sub'', JStr ''ana@eco.org''), (''exp'', JInt 1800),
                                    (''type'', JStr ''password_reset'')]"

definition demo_verification_token :: token where
  "demo_verification_token = Signed ''k'' [(''sub'', JStr ''ana@eco.org''), (''exp'', JInt 86400),
                                           (''type'', JStr ''email_verification'')]"

definition demo_change_token :: token where
  "demo_change_token = Signed ''k'' [(''sub'', JStr ''1''), (''new_email'', JStr ''ana@eco.org''),
                                     (''exp'', JInt 86400), (''type'', JStr ''email_change'')]"

definition demo_deletion_token :: token where
  "demo_deletion_token = Signed ''k'' [(''sub'', JStr ''1''), (''exp'', JInt 86400),
                                       (''type'', JStr ''account_deletion'')]"

section \<open>The lifecycle as a transition system\<close>

text \<open>
  Invariant I1 of an account row: \<^verbatim>\<open>deletion_scheduled_at\<close> is set only if
  \<^verbatim>\<open>deletion_requested_at\<close> is set and not later than it.
\<close>

definition I1 :: "user \<Rightarrow> bool" where
  "I1 u =
     (case deletion_scheduled_at u of
        None \<Rightarrow> True
      | Some s \<Rightarrow> (case deletion_requested_at u of None \<Rightarrow> False | Some r \<Rightarrow> r \<le> s))"

text \<open>
  A state is the users table and the time of the last operation. The system starts with
  any table of accounts without a deletion request. Each step runs one operation at a time
  \<open>now\<close> not earlier than the last one, with any arguments, and keeps the table the
  operation leaves (the table it was given, when the operation raises). \<open>register\<close> is
  the effect of a registration on the columns modelled here: a new row whose deletion fields
  are null.
\<close>

inductive reachable :: "(string \<Rightarrow> string \<Rightarrow> bool) \<Rightarrow> settings \<Rightarrow> db \<times> timestamp \<Rightarrow> bool"
  for pwd_verify :: "string \<Rightarrow> string \<Rightarrow> bool" and st :: settings
where
  start:
    "\<forall>u\<in>set d. deletion_requested_at u = None \<and> deletion_scheduled_at u = None \<Longrightarrow>
     reachable pwd_verify st (d, t)"
| register:
    "reachable pwd_verify st (d, t) \<Longrightarrow> t \<le> now \<Longrightarrow>
     deletion_requested_at u = None \<Longrightarrow> deletion_scheduled_at u = None \<Longrightarrow>
     reachable pwd_verify st (d @ [u], now)"
| request:
    "reachable pwd_verify st (d, t) \<Longrightarrow> t \<le> now \<Longrightarrow>
     reachable pwd_verify st
       (fst (snd (request_account_deletion st now current_user user_id d)), now)"
| confirm:
    "reachable pwd_verify st (d, t) \<Longrightarrow> t \<le> now \<Longrightarrow>
     reachable pwd_verify st (fst (snd (confirm_account_deletion st now token_data d)), now)"
| cancel:
    "reachable pwd_verify st (d, t) \<Longrightarrow> t \<le> now \<Longrightarrow>
     reachable pwd_verify st (fst (snd (cancel_account_deletion current_user user_id d)), now)"
| login:
    "reachable pwd_verify st (d, t) \<Longrightarrow> t \<le> now \<Longrightarrow>
     reachable pwd_verify st
       (fst (snd (login_for_access_token pwd_verify st now name password d)), now)"
| sweep:
    "reachable pwd_verify st (d, t) \<Longrightarrow> t \<le> now \<Longrightarrow>
     reachable pwd_verify st (fst (process_pending_deletions now d), now)"
| cleanup:
    "reachable pwd_verify st (d, t) \<Longrightarrow> t \<le> now \<Longrightarrow>
     reachable pwd_verify st (fst (cleanup_expired_requests now d), now)"

text \<open>The invariant carried through the steps: I1, and no request dated after the clock.\<close>

definition row_ok :: "timestamp \<Rightarrow> user \<Rightarrow> bool" where
  "row_ok t u = (I1 u \<and> (\<forall>r. deletion_requested_at u = Some r \<longrightarrow> r \<le> t))"

section \<open>The clean-up as the specification words it\<close>

text \<open>
  Section 4.5 of the specification, \<^verbatim>\<open>CleanupAbandonedRequests(now, maxAge)\<close>: it clears
  \<^verbatim>\<open>deletion_requested_at\<close> of the rows whose request was made more than \<open>maxAge\<close>
  ago and never confirmed (\<^verbatim>\<open>deletion_scheduled_at\<close> still null), leaves every other
  row as it is, and returns the number of rows cleared. This definition follows the
  specification, not the code; \<open>cleanup_expired_requests\<close> above is the code.
\<close>

definition abandoned :: "timestamp \<Rightarrow> int \<Rightarrow> user \<Rightarrow> bool" where
  "abandoned now maxAge u =
     (case deletion_requested_at u of
        None \<Rightarrow> False
      | Some r \<Rightarrow> deletion_scheduled_at u = None \<and> maxAge < now - r)"

definition CleanupAbandonedRequests_spec :: "timestamp \<Rightarrow> int \<Rightarrow> db \<Rightarrow> db \<times> nat" where
  "CleanupAbandonedRequests_spec now maxAge d =
     (map (\<lambda>u. if abandoned now maxAge u then u\<lparr>deletion_requested_at := None\<rparr> else u) d,
      length (filter (abandoned now maxAge) d))"


section \<open>Properties of the sweep\<close>

lemma fold_db_delete:
  "fold db_delete us d = filter (\<lambda>r. uid r \<notin> uid ` set us) d"
proof (induction us arbitrary: d)
  case Nil
  show ?case by simp
next
  case (Cons u us)
  have "fold db_delete (u # us) d = fold db_delete us (db_delete u d)" by simp
  also have "\<dots> = filter (\<lambda>r. uid r \<notin> uid ` set us) (db_delete u d)" by (rule Cons.IH)
  also have "\<dots> = filter (\<lambda>r. uid r \<notin> uid ` set (u # us)) d"
    by (auto simp: db_delete_def intro: filter_cong)
  finally show ?case .
qed

lemma uid_in_selected:
  assumes "distinct (map uid d)" and "r \<in> set d"
  shows "uid r \<in> uid ` set (filter P d) \<longleftrightarrow> P r"
proof
  assume "uid r \<in> uid ` set (filter P d)"
  then obtain r' where r': "r' \<in> set d" "P r'" "uid r = uid r'" by auto
  from assms(1) have "inj_on uid (set d)" by (simp add: distinct_map)
  with r' assms(2) have "r = r'" by (auto dest: inj_onD)
  with r' show "P r" by simp
next
  assume "P r"
  with assms(2) show "uid r \<in> uid ` set (filter P d)" by auto
qed

text \<open>
  C3. With the primary key unique, the sweep at \<open>now\<close> removes exactly the rows whose
  \<^verbatim>\<open>deletion_scheduled_at\<close> is set and not later than \<open>now\<close>: what remains is the
  table restricted to the rows whose \<^verbatim>\<open>deletion_scheduled_at\<close> is null or in the
  future, each of them as it was and in the same order, and the logged count is the number
  of rows removed.
\<close>

theorem sweep_deletes_exactly_due:
  assumes "distinct (map uid d)"
  shows "fst (process_pending_deletions now d) =
           filter (\<lambda>u. case deletion_scheduled_at u of None \<Rightarrow> True | Some t \<Rightarrow> now < t) d
         \<and> snd (process_pending_deletions now d) =
           length (filter (\<lambda>u. case deletion_scheduled_at u of None \<Rightarrow> False | Some t \<Rightarrow> t \<le> now) d)"
proof -
  have "filter (\<lambda>r. uid r \<notin> uid ` set (filter (deletion_due now) d)) d =
        filter (\<lambda>u. \<not> deletion_due now u) d"
    using uid_in_selected [OF assms] by (intro filter_cong) auto
  moreover have "(\<lambda>u. \<not> deletion_due now u) =
        (\<lambda>u. case deletion_scheduled_at u of None \<Rightarrow> True | Some t \<Rightarrow> now < t)"
    by (auto simp: deletion_due_def fun_eq_iff split: option.splits)
  moreover have "deletion_due now =
        (\<lambda>u. case deletion_scheduled_at u of None \<Rightarrow> False | Some t \<Rightarrow> t \<le> now)"
    by (auto simp: deletion_due_def fun_eq_iff)
  ultimately show ?thesis
    by (simp add: process_pending_deletions_def Let_def fold_db_delete)
qed

theorem sweep_deletes_exactly_due_witness:
  "distinct (map uid [account 1 ''ana'' True (Some 0) (Some 6400),
                      account 2 ''luis'' True (Some 0) (Some 13600),
                      account 3 ''eva'' True None None])
   \<and> fst (process_pending_deletions 10000
        [account 1 ''ana'' True (Some 0) (Some 6400),
         account 2 ''luis'' True (Some 0) (Some 13600),
         account 3 ''eva'' True None None])
     = [account 2 ''luis'' True (Some 0) (Some 13600), account 3 ''eva'' True None None]
   \<and> snd (process_pending_deletions 10000
        [account 1 ''ana'' True (Some 0) (Some 6400),
         account 2 ''luis'' True (Some 0) (Some 13600),
         account 3 ''eva'' True None None]) = 1"
  using sweep_deletes_exactly_due
    [of "[account 1 ''ana'' True (Some 0) (Some 6400),
          account 2 ''luis'' True (Some 0) (Some 13600),
          account 3 ''eva'' True None None]" 10000]
  by (simp add: account_def)

section \<open>Table lookups and updates\<close>

lemma get_user_by_id_SomeD:
  "get_user_by_id d i = Some u \<Longrightarrow> uid u = i \<and> u \<in> set d"
  by (auto simp: get_user_by_id_def find_Some_iff)

lemma get_user_by_id_db_update:
  assumes "get_user_by_id d i = Some u" and "uid u' = i"
  shows "get_user_by_id (db_update u' d) i = Some u'"
  using assms unfolding get_user_by_id_def db_update_def
  by (induction d) (auto split: if_splits)

lemma db_update_same_uid:
  "r \<in> set (db_update u' d) \<Longrightarrow> uid r = uid u' \<Longrightarrow> r = u'"
  by (auto simp: db_update_def split: if_splits)

lemma db_update_other_uid:
  "uid r \<noteq> uid u' \<Longrightarrow> r \<in> set (db_update u' d) \<longleftrightarrow> r \<in> set d"
  by (auto simp: db_update_def split: if_splits)

lemma db_update_mem:
  "u \<in> set d \<Longrightarrow> uid u' = uid u \<Longrightarrow> u' \<in> set (db_update u' d)"
  by (force simp: db_update_def)

lemma authenticate_user_SomeD:
  assumes "authenticate_user pwd_verify d name password = Some u"
  shows "u \<in> set d \<and> verify_password pwd_verify password (hashed_password u)"
  using assms
  by (auto simp: authenticate_user_def get_user_by_username_def get_user_by_email_def
        find_Some_iff Let_def split: option.splits if_splits)

section \<open>Requesting a deletion\<close>

text \<open>
  C1, as the code has it. For an account without a pending request and a caller who is
  the account's owner or an administrator, \<^verbatim>\<open>request_account_deletion\<close> succeeds and
  sets \<^verbatim>\<open>deletion_requested_at\<close> to \<open>now\<close> and, in the same step,
  \<^verbatim>\<open>deletion_scheduled_at\<close> to \<open>now\<close> plus 24 hours.
\<close>

theorem request_schedules_at_once:
  assumes "get_user_by_id d user_id = Some u"
      and "deletion_requested_at u = None"
      and "uid current_user = user_id \<or> is_admin current_user"
  shows "\<exists>body tasks.
           request_account_deletion st now current_user user_id d =
             (Inr body,
              db_update (u\<lparr>deletion_requested_at := Some now,
                           deletion_scheduled_at := Some (now + 86400)\<rparr>) d,
              tasks)
         \<and> get_user_by_id
              (db_update (u\<lparr>deletion_requested_at := Some now,
                            deletion_scheduled_at := Some (now + 86400)\<rparr>) d) user_id =
             Some (u\<lparr>deletion_requested_at := Some now,
                      deletion_scheduled_at := Some (now + 86400)\<rparr>)"
proof -
  let ?u' = "u\<lparr>deletion_requested_at := Some now, deletion_scheduled_at := Some (now + 86400)\<rparr>"
  from assms(1) have "uid u = user_id" by (simp add: get_user_by_id_SomeD)
  then have "uid ?u' = user_id" by simp
  with assms(1) have found: "get_user_by_id (db_update ?u' d) user_id = Some ?u'"
    by (rule get_user_by_id_db_update)
  from assms(3) have "check_user_authorization current_user user_id = None"
    by (auto simp: check_user_authorization_def)
  with assms(1,2) found show ?thesis
    by (simp add: request_account_deletion_def Let_def hours24_def)
qed

theorem request_schedules_at_once_witness:
  "get_user_by_id [account 1 ''ana'' True None None] 1 = Some (account 1 ''ana'' True None None)
   \<and> deletion_requested_at (account 1 ''ana'' True None None) = None
   \<and> (\<exists>body tasks.
        request_account_deletion st0 1000 (account 1 ''ana'' True None None) 1
          [account 1 ''ana'' True None None] =
        (Inr body, [account 1 ''ana'' True (Some 1000) (Some 87400)], tasks))"
  using request_schedules_at_once
    [of "[account 1 ''ana'' True None None]" 1 "account 1 ''ana'' True None None"
        "account 1 ''ana'' True None None" st0 1000]
  by (simp add: account_def get_user_by_id_def db_update_def)

text \<open>
  C1 as stated fails: after the request of an account with no pending request,
  \<^verbatim>\<open>deletion_scheduled_at\<close> is not null.
\<close>

theorem request_leaves_schedule_null_counterexample:
  "deletion_requested_at (account 1 ''ana'' True None None) = None
   \<and> map deletion_scheduled_at
       (fst (snd (request_account_deletion st0 1000 (account 1 ''ana'' True None None) 1
                    [account 1 ''ana'' True None None]))) = [Some 87400]"
  by (simp add: request_account_deletion_def check_user_authorization_def get_user_by_id_def
        db_update_def account_def hours24_def Let_def)

section \<open>Login cancels a deletion\<close>

lemma login_success_table:
  assumes auth: "authenticate_user pwd_verify d name password = Some u"
      and ok: "login_for_access_token pwd_verify st now name password d = (Inr body, d', tasks)"
  shows "is_verified u \<and>
         d' = db_update (if deletion_requested_at u \<noteq> None
                         then u\<lparr>last_login := Some now, deletion_requested_at := None,
                                deletion_scheduled_at := None\<rparr>
                         else u\<lparr>last_login := Some now\<rparr>) d \<and>
         tasks = (if deletion_requested_at u \<noteq> None
                  then [SendAccountDeletionCancelled (email u)] else [])"
  using ok unfolding login_for_access_token_def auth
  by (auto simp: Let_def split: if_splits sum.splits)

lemma sweep_keeps:
  assumes "r \<in> set d" and "\<forall>r'\<in>set d. uid r' = uid r \<longrightarrow> deletion_scheduled_at r' = None"
  shows "r \<in> set (fst (process_pending_deletions t d))"
proof -
  have "uid r \<notin> uid ` set (filter (deletion_due t) d)"
    using assms(2) by (auto simp: deletion_due_def split: option.splits)
  with assms(1) show ?thesis
    by (simp add: process_pending_deletions_def Let_def fold_db_delete)
qed

text \<open>
  C2. When the credentials authenticate an account with \<^verbatim>\<open>deletion_requested_at\<close>
  set and the login succeeds, the account is still in the table, both deletion fields of
  it are null, and a sweep at any time on the resulting table keeps it.
\<close>

theorem login_cancels_deletion:
  assumes auth: "authenticate_user pwd_verify d name password = Some u"
      and pending: "deletion_requested_at u \<noteq> None"
      and ok: "login_for_access_token pwd_verify st now name password d = (Inr body, d', tasks)"
  shows "(\<exists>r\<in>set d'. uid r = uid u) \<and>
         (\<forall>r\<in>set d'. uid r = uid u \<longrightarrow>
             deletion_requested_at r = None \<and> deletion_scheduled_at r = None \<and>
             r \<in> set (fst (process_pending_deletions sweep_time d')))"
proof -
  let ?u2 = "u\<lparr>last_login := Some now, deletion_requested_at := None,
               deletion_scheduled_at := None\<rparr>"
  from login_success_table [OF auth ok] pending have d': "d' = db_update ?u2 d" by simp
  from auth have "u \<in> set d" by (simp add: authenticate_user_SomeD)
  then have mem: "?u2 \<in> set d'" unfolding d' by (rule db_update_mem) simp
  have same: "r = ?u2" if "r \<in> set d'" "uid r = uid u" for r
    using that unfolding d' by (auto dest: db_update_same_uid)
  have cleared: "\<forall>r'\<in>set d'. uid r' = uid ?u2 \<longrightarrow> deletion_scheduled_at r' = None"
  proof (intro ballI impI)
    fix r' assume "r' \<in> set d'" and "uid r' = uid ?u2"
    then have "r' = ?u2" using same by simp
    then show "deletion_scheduled_at r' = None" by simp
  qed
  have kept: "?u2 \<in> set (fst (process_pending_deletions sweep_time d'))"
    using mem cleared by (rule sweep_keeps)
  have "uid ?u2 = uid u" by simp
  with mem have "\<exists>r\<in>set d'. uid r = uid u" by (rule bexI [rotated])
  moreover have "deletion_requested_at r = None \<and> deletion_scheduled_at r = None \<and>
             r \<in> set (fst (process_pending_deletions sweep_time d'))"
    if "r \<in> set d'" "uid r = uid u" for r
    using same [OF that] kept by simp
  ultimately show ?thesis by blast
qed


theorem login_cancels_deletion_witness:
  "authenticate_user demo_verify [account 1 ''ana'' True (Some 0) (Some 6400)] ''ana'' ''ana''
     = Some (account 1 ''ana'' True (Some 0) (Some 6400))
   \<and> deletion_requested_at (account 1 ''ana'' True (Some 0) (Some 6400)) \<noteq> None
   \<and> login_for_access_token demo_verify st0 5000 ''ana'' ''ana''
         [account 1 ''ana'' True (Some 0) (Some 6400)]
       = (Inr (AccessToken (Signed ''k'' [(''sub'', JStr ''ana''), (''exp'', JInt 6800)])
                 ''bearer'' 1800),
          [account 1 ''ana'' True None None\<lparr>last_login := Some 5000\<rparr>],
          [SendAccountDeletionCancelled ''ana@eco.org''])
   \<and> account 1 ''ana'' True None None\<lparr>last_login := Some 5000\<rparr>
       \<in> set (fst (process_pending_deletions 7000
                 [account 1 ''ana'' True None None\<lparr>last_login := Some 5000\<rparr>]))"
proof -
  have a: "authenticate_user demo_verify [account 1 ''ana'' True (Some 0) (Some 6400)] ''ana'' ''ana''
     = Some (account 1 ''ana'' True (Some 0) (Some 6400))"
    by (simp add: authenticate_user_def get_user_by_username_def verify_password_def
          demo_verify_def account_def)
  have p: "deletion_requested_at (account 1 ''ana'' True (Some 0) (Some 6400)) \<noteq> None"
    by (simp add: account_def)
  have l: "login_for_access_token demo_verify st0 5000 ''ana'' ''ana''
         [account 1 ''ana'' True (Some 0) (Some 6400)]
       = (Inr (AccessToken (Signed ''k'' [(''sub'', JStr ''ana''), (''exp'', JInt 6800)])
                 ''bearer'' 1800),
          [account 1 ''ana'' True None None\<lparr>last_login := Some 5000\<rparr>],
          [SendAccountDeletionCancelled ''ana@eco.org''])"
    unfolding login_for_access_token_def a
    by (simp add: account_def db_update_def create_access_token_def jwt_encode_def st0_def Let_def)
  from login_cancels_deletion [OF a p l, of 7000] a p l show ?thesis
    by (simp add: account_def)
qed

section \<open>Login of an unverified account\<close>

text \<open>
  C10. When the credentials authenticate an account that is not verified and has a deletion
  pending, the login fails with status 401 and returns the users table as it was, so both
  deletion fields keep their values; the cancel endpoint, called for that account, does
  clear them.
\<close>

theorem unverified_login_rejected:
  assumes auth: "authenticate_user pwd_verify d name password = Some u"
      and unverified: "\<not> is_verified u"
      and pending: "deletion_requested_at u \<noteq> None"
      and lookup: "get_user_by_id d (uid u) = Some u"
  shows "login_for_access_token pwd_verify st now name password d =
           (Inl (HTTPException 401 msg_not_verified), d, [])
         \<and> cancel_account_deletion u (uid u) d =
           (Inr (Json [(''message'', JStr msg_deletion_cancelled)]),
            db_update (u\<lparr>deletion_requested_at := None, deletion_scheduled_at := None\<rparr>) d,
            [SendAccountDeletionCancelled (email u)])"
proof -
  from auth unverified
  have "login_for_access_token pwd_verify st now name password d =
           (Inl (HTTPException 401 msg_not_verified), d, [])"
    by (simp add: login_for_access_token_def)
  moreover from pending lookup
  have "cancel_account_deletion u (uid u) d =
           (Inr (Json [(''message'', JStr msg_deletion_cancelled)]),
            db_update (u\<lparr>deletion_requested_at := None, deletion_scheduled_at := None\<rparr>) d,
            [SendAccountDeletionCancelled (email u)])"
    by (simp add: cancel_account_deletion_def check_user_authorization_def Let_def)
  ultimately show ?thesis by simp
qed

theorem unverified_login_rejected_witness:
  "authenticate_user demo_verify [account 1 ''ana'' False (Some 0) (Some 86400)] ''ana'' ''ana''
     = Some (account 1 ''ana'' False (Some 0) (Some 86400))
   \<and> \<not> is_verified (account 1 ''ana'' False (Some 0) (Some 86400))
   \<and> deletion_requested_at (account 1 ''ana'' False (Some 0) (Some 86400)) \<noteq> None
   \<and> get_user_by_id [account 1 ''ana'' False (Some 0) (Some 86400)]
         (uid (account 1 ''ana'' False (Some 0) (Some 86400)))
       = Some (account 1 ''ana'' False (Some 0) (Some 86400))
   \<and> login_for_access_token demo_verify st0 5000 ''ana'' ''ana''
        [account 1 ''ana'' False (Some 0) (Some 86400)]
      = (Inl (HTTPException 401 msg_not_verified),
         [account 1 ''ana'' False (Some 0) (Some 86400)], [])
   \<and> cancel_account_deletion (account 1 ''ana'' False (Some 0) (Some 86400)) 1
        [account 1 ''ana'' False (Some 0) (Some 86400)]
      = (Inr (Json [(''message'', JStr msg_deletion_cancelled)]),
         [account 1 ''ana'' False None None], [SendAccountDeletionCancelled ''ana@eco.org''])"
proof -
  have a: "authenticate_user demo_verify [account 1 ''ana'' False (Some 0) (Some 86400)] ''ana'' ''ana''
     = Some (account 1 ''ana'' False (Some 0) (Some 86400))"
    by (simp add: authenticate_user_def get_user_by_username_def verify_password_def
          demo_verify_def account_def)
  have v: "\<not> is_verified (account 1 ''ana'' False (Some 0) (Some 86400))"
    by (simp add: account_def)
  have p: "deletion_requested_at (account 1 ''ana'' False (Some 0) (Some 86400)) \<noteq> None"
    by (simp add: account_def)
  have g: "get_user_by_id [account 1 ''ana'' False (Some 0) (Some 86400)]
         (uid (account 1 ''ana'' False (Some 0) (Some 86400)))
       = Some (account 1 ''ana'' False (Some 0) (Some 86400))"
    by (simp add: get_user_by_id_def)
  from unverified_login_rejected [OF a v p g, of st0 5000] a v p g show ?thesis
    by (simp add: account_def db_update_def)
qed

section \<open>Confirming a deletion\<close>

lemma valid_token_not_empty:
  "verify_account_deletion_token st now tok = Inr (Some i) \<Longrightarrow> \<not> empty_token tok"
  by (auto simp: verify_account_deletion_token_def empty_token_def jwt_decode_def)

lemma demo_token:
  "verify_account_deletion_token st0 3600 (create_account_deletion_token st0 0 1) = Inr (Some 1)"
  by code_simp

text \<open>
  C4, as the code has it. With a token that verifies for an existing account,
  \<^verbatim>\<open>confirm_account_deletion\<close> fails with status 400 (no pending request) and changes
  nothing when \<^verbatim>\<open>deletion_requested_at\<close> is null; when it is set, whatever
  \<^verbatim>\<open>deletion_scheduled_at\<close> holds, the confirmation succeeds and sets
  \<^verbatim>\<open>deletion_scheduled_at\<close> to \<open>now\<close> plus 24 hours.
\<close>

theorem confirm_reschedules:
  assumes "verify_account_deletion_token st now tok = Inr (Some i)"
      and "get_user_by_id d i = Some u"
  shows "(deletion_requested_at u = None \<longrightarrow>
            confirm_account_deletion st now (Some tok) d =
              (Inl (HTTPException 400 msg_no_pending_request), d, []))
       \<and> (deletion_requested_at u \<noteq> None \<longrightarrow>
            confirm_account_deletion st now (Some tok) d =
              (Inr (Json [(''msg'', JStr msg_deletion_confirmed),
                          (''deletion_scheduled_at'', JInt (now + 86400))]),
               db_update (u\<lparr>deletion_scheduled_at := Some (now + 86400)\<rparr>) d, [])
          \<and> get_user_by_id (db_update (u\<lparr>deletion_scheduled_at := Some (now + 86400)\<rparr>) d) i =
              Some (u\<lparr>deletion_scheduled_at := Some (now + 86400)\<rparr>))"
proof -
  from assms(1) have ne: "\<not> empty_token tok" by (rule valid_token_not_empty)
  from assms(2) have "uid (u\<lparr>deletion_scheduled_at := Some (now + 86400)\<rparr>) = i"
    by (simp add: get_user_by_id_SomeD)
  with assms(2)
  have "get_user_by_id (db_update (u\<lparr>deletion_scheduled_at := Some (now + 86400)\<rparr>) d) i =
              Some (u\<lparr>deletion_scheduled_at := Some (now + 86400)\<rparr>)"
    by (rule get_user_by_id_db_update)
  with assms ne show ?thesis
    by (simp add: confirm_account_deletion_def Let_def hours24_def)
qed

theorem confirm_reschedules_witness:
  "verify_account_deletion_token st0 3600 (create_account_deletion_token st0 0 1) = Inr (Some 1)
   \<and> get_user_by_id [account 1 ''ana'' True None None] 1 = Some (account 1 ''ana'' True None None)
   \<and> get_user_by_id [account 1 ''ana'' True (Some 0) None] 1
       = Some (account 1 ''ana'' True (Some 0) None)
   \<and> confirm_account_deletion st0 3600 (Some (create_account_deletion_token st0 0 1))
        [account 1 ''ana'' True None None]
      = (Inl (HTTPException 400 msg_no_pending_request), [account 1 ''ana'' True None None], [])
   \<and> confirm_account_deletion st0 3600 (Some (create_account_deletion_token st0 0 1))
        [account 1 ''ana'' True (Some 0) None]
      = (Inr (Json [(''msg'', JStr msg_deletion_confirmed),
                    (''deletion_scheduled_at'', JInt 90000)]),
         [account 1 ''ana'' True (Some 0) (Some 90000)], [])"
proof -
  have g1: "get_user_by_id [account 1 ''ana'' True None None] 1
              = Some (account 1 ''ana'' True None None)"
    by (simp add: get_user_by_id_def account_def)
  have g2: "get_user_by_id [account 1 ''ana'' True (Some 0) None] 1
              = Some (account 1 ''ana'' True (Some 0) None)"
    by (simp add: get_user_by_id_def account_def)
  from confirm_reschedules [OF demo_token g1] confirm_reschedules [OF demo_token g2]
    demo_token g1 g2
  show ?thesis by (simp add: account_def db_update_def)
qed

text \<open>
  C4 as stated fails: a confirmation one hour after the deletion was scheduled for 86400 is
  accepted and moves the deadline to 90000.
\<close>

theorem second_confirm_rejected_counterexample:
  "confirm_account_deletion st0 3600 (Some (create_account_deletion_token st0 0 1))
     [account 1 ''ana'' True (Some 0) (Some 86400)]
   = (Inr (Json [(''msg'', JStr msg_deletion_confirmed),
                 (''deletion_scheduled_at'', JInt 90000)]),
      [account 1 ''ana'' True (Some 0) (Some 90000)], [])"
proof -
  have "\<not> empty_token (create_account_deletion_token st0 0 1)"
    by (simp add: empty_token_def create_account_deletion_token_def jwt_encode_def)
  then show ?thesis
    by (simp add: confirm_account_deletion_def demo_token get_user_by_id_def account_def
          db_update_def hours24_def Let_def)
qed

section \<open>Cancelling a deletion\<close>

text \<open>
  C5, as the code has it. For an existing account and an authorised caller,
  \<^verbatim>\<open>cancel_account_deletion\<close> succeeds and clears both deletion fields when
  \<^verbatim>\<open>deletion_requested_at\<close> is set, and a second call right after it fails with
  status 400 and leaves the table of the first call; when \<^verbatim>\<open>deletion_requested_at\<close>
  is null the call fails with status 400 and changes nothing.
\<close>

theorem cancel_twice:
  assumes lookup: "get_user_by_id d user_id = Some u"
      and allowed: "uid current_user = user_id \<or> is_admin current_user"
  shows "(deletion_requested_at u \<noteq> None \<longrightarrow>
            cancel_account_deletion current_user user_id d =
              (Inr (Json [(''message'', JStr msg_deletion_cancelled)]),
               db_update (u\<lparr>deletion_requested_at := None, deletion_scheduled_at := None\<rparr>) d,
               [SendAccountDeletionCancelled (email u)])
          \<and> get_user_by_id
                (db_update (u\<lparr>deletion_requested_at := None, deletion_scheduled_at := None\<rparr>) d)
                user_id
              = Some (u\<lparr>deletion_requested_at := None, deletion_scheduled_at := None\<rparr>)
          \<and> cancel_account_deletion current_user user_id
                (db_update (u\<lparr>deletion_requested_at := None, deletion_scheduled_at := None\<rparr>) d)
              = (Inl (HTTPException 400 msg_nothing_to_cancel),
                 db_update (u\<lparr>deletion_requested_at := None, deletion_scheduled_at := None\<rparr>) d,
                 []))
       \<and> (deletion_requested_at u = None \<longrightarrow>
            cancel_account_deletion current_user user_id d =
              (Inl (HTTPException 400 msg_nothing_to_cancel), d, []))"
proof -
  let ?u' = "u\<lparr>deletion_requested_at := None, deletion_scheduled_at := None\<rparr>"
  from allowed have az: "check_user_authorization current_user user_id = None"
    by (auto simp: check_user_authorization_def)
  from lookup have "uid ?u' = user_id" by (simp add: get_user_by_id_SomeD)
  with lookup have found: "get_user_by_id (db_update ?u' d) user_id = Some ?u'"
    by (rule get_user_by_id_db_update)
  have first: "cancel_account_deletion current_user user_id d =
      (Inr (Json [(''message'', JStr msg_deletion_cancelled)]), db_update ?u' d,
       [SendAccountDeletionCancelled (email u)])" if "deletion_requested_at u \<noteq> None"
    using that az lookup by (simp add: cancel_account_deletion_def Let_def)
  have second: "cancel_account_deletion current_user user_id (db_update ?u' d) =
      (Inl (HTTPException 400 msg_nothing_to_cancel), db_update ?u' d, [])"
    using az found by (simp add: cancel_account_deletion_def)
  have none: "cancel_account_deletion current_user user_id d =
      (Inl (HTTPException 400 msg_nothing_to_cancel), d, [])" if "deletion_requested_at u = None"
    using that az lookup by (simp add: cancel_account_deletion_def)
  from first second none found show ?thesis by blast
qed

theorem cancel_twice_witness:
  "get_user_by_id [account 1 ''ana'' True (Some 0) (Some 86400)] 1
     = Some (account 1 ''ana'' True (Some 0) (Some 86400))
   \<and> get_user_by_id [account 1 ''ana'' True None None] 1
     = Some (account 1 ''ana'' True None None)
   \<and> cancel_account_deletion (account 1 ''ana'' True (Some 0) (Some 86400)) 1
        [account 1 ''ana'' True (Some 0) (Some 86400)]
      = (Inr (Json [(''message'', JStr msg_deletion_cancelled)]),
         [account 1 ''ana'' True None None], [SendAccountDeletionCancelled ''ana@eco.org''])
   \<and> cancel_account_deletion (account 1 ''ana'' True (Some 0) (Some 86400)) 1
        [account 1 ''ana'' True None None]
      = (Inl (HTTPException 400 msg_nothing_to_cancel), [account 1 ''ana'' True None None], [])"
proof -
  have g1: "get_user_by_id [account 1 ''ana'' True (Some 0) (Some 86400)] 1
     = Some (account 1 ''ana'' True (Some 0) (Some 86400))"
    by (simp add: get_user_by_id_def account_def)
  have g2: "get_user_by_id [account 1 ''ana'' True None None] 1
     = Some (account 1 ''ana'' True None None)"
    by (simp add: get_user_by_id_def account_def)
  have o: "uid (account 1 ''ana'' True (Some 0) (Some 86400)) = 1
           \<or> is_admin (account 1 ''ana'' True (Some 0) (Some 86400))"
    by (simp add: account_def)
  from cancel_twice [OF g1 o] cancel_twice [OF g2 o] g1 g2 show ?thesis
    by (simp add: account_def db_update_def)
qed

text \<open>
  C5 as stated fails: the second of two cancellations in a row is no success, it raises
  status 400.
\<close>

theorem second_cancel_succeeds_counterexample:
  "cancel_account_deletion (account 1 ''ana'' True (Some 0) (Some 86400)) 1
     (fst (snd (cancel_account_deletion (account 1 ''ana'' True (Some 0) (Some 86400)) 1
                  [account 1 ''ana'' True (Some 0) (Some 86400)])))
   = (Inl (HTTPException 400 msg_nothing_to_cancel), [account 1 ''ana'' True None None], [])"
  by (simp add: cancel_account_deletion_def check_user_authorization_def get_user_by_id_def
        account_def db_update_def Let_def)

section \<open>Password reset requests\<close>

text \<open>
  C9. A password-reset request for an email that belongs to an account and one for an email
  that belongs to none get the same response: the standard message, returned as a success.
\<close>

theorem reset_request_same_message:
  assumes "get_user_by_email d1 e1 \<noteq> None" and "get_user_by_email d2 e2 = None"
  shows "fst (request_password_reset st ok1 t1 e1 d1) = Inr (Json [(''message'', JStr msg_reset_sent)])
       \<and> fst (request_password_reset st ok2 t2 e2 d2) = fst (request_password_reset st ok1 t1 e1 d1)"
  using assms
  by (auto simp: request_password_reset_def split: option.splits sum.splits)

lemma demo_email: "validate_email ''ana@eco.org''"
  by (simp add: validate_email_def re_match_def EMAIL_REGEX_def py_strip_def py_isspace_def
        local_char_def domain_char_def is_alpha_def is_digit_def)

theorem reset_request_same_message_witness:
  "get_user_by_email [account 1 ''ana'' True None None] ''ana@eco.org'' \<noteq> None
   \<and> get_user_by_email [account 1 ''ana'' True None None] ''eva@eco.org'' = None
   \<and> request_password_reset st0 True 1000 ''ana@eco.org'' [account 1 ''ana'' True None None]
      = (Inr (Json [(''message'', JStr msg_reset_sent)]), [account 1 ''ana'' True None None],
         [SendResetEmail ''ana@eco.org''
            (Signed ''k'' [(''sub'', JStr ''ana@eco.org''), (''exp'', JInt 2800),
                           (''type'', JStr ''password_reset'')])])
   \<and> request_password_reset st0 True 1000 ''eva@eco.org'' [account 1 ''ana'' True None None]
      = (Inr (Json [(''message'', JStr msg_reset_sent)]), [account 1 ''ana'' True None None], [])"
proof -
  have g1: "get_user_by_email [account 1 ''ana'' True None None] ''ana@eco.org'' \<noteq> None"
    by (simp add: get_user_by_email_def account_def)
  have g2: "get_user_by_email [account 1 ''ana'' True None None] ''eva@eco.org'' = None"
    by (simp add: get_user_by_email_def account_def)
  have c: "create_password_reset_token st0 1000 ''ana@eco.org''
           = Inr (Signed ''k'' [(''sub'', JStr ''ana@eco.org''), (''exp'', JInt 2800),
                           (''type'', JStr ''password_reset'')])"
    using demo_email
    by (simp add: create_password_reset_token_def jwt_encode_def st0_def
          RESET_TOKEN_EXPIRE_MINUTES_def)
  have r1: "snd (request_password_reset st0 True 1000 ''ana@eco.org'' [account 1 ''ana'' True None None])
      = ([account 1 ''ana'' True None None],
         [SendResetEmail ''ana@eco.org''
            (Signed ''k'' [(''sub'', JStr ''ana@eco.org''), (''exp'', JInt 2800),
                           (''type'', JStr ''password_reset'')])])"
    using c by (simp add: request_password_reset_def get_user_by_email_def account_def)
  have r2: "snd (request_password_reset st0 True 1000 ''eva@eco.org'' [account 1 ''ana'' True None None])
      = ([account 1 ''ana'' True None None], [])"
    by (simp add: request_password_reset_def get_user_by_email_def account_def)
  from reset_request_same_message [OF g1 g2, of st0 True 1000 True 1000] g1 g2 r1 r2
  show ?thesis by (simp add: prod_eq_iff)
qed

section \<open>Purpose isolation of the tokens\<close>

lemma decode_fails_rejected:
  assumes "jwt_decode tok (secret_key st) now = Inl err"
  shows "verify_password_reset_token st now tok = None"
    and "verify_email_verification_token st now tok = None"
    and "verify_email_change_token st now tok = Inr None"
    and "verify_account_deletion_token st now tok = Inr None"
  using assms
  by (simp_all add: verify_password_reset_token_def verify_email_verification_token_def
        verify_email_change_token_def verify_account_deletion_token_def)

lemma decode_returns_payload:
  "jwt_decode (Signed k payload) key now = Inr x \<Longrightarrow> x = payload"
  by (auto simp: jwt_decode_def split: if_splits option.splits jvalue.splits)

lemma wrong_type_rejected:
  assumes "map_of payload ''type'' = Some (JStr ty)"
  shows "ty \<noteq> ''password_reset'' \<Longrightarrow>
           verify_password_reset_token st now (Signed (secret_key st) payload) = None"
    and "ty \<noteq> ''email_verification'' \<Longrightarrow>
           verify_email_verification_token st now (Signed (secret_key st) payload) = None"
    and "ty \<noteq> ''email_change'' \<Longrightarrow>
           verify_email_change_token st now (Signed (secret_key st) payload) = Inr None"
    and "ty \<noteq> ''account_deletion'' \<Longrightarrow>
           verify_account_deletion_token st now (Signed (secret_key st) payload) = Inr None"
  using assms
  by (auto simp: verify_password_reset_token_def verify_email_verification_token_def
        verify_email_change_token_def verify_account_deletion_token_def
        split: sum.splits dest!: decode_returns_payload)

lemma decode_malformed: "jwt_decode (Malformed s) key now = Inl JWTError"
  by (simp add: jwt_decode_def)

lemma decode_other_key: "k \<noteq> key \<Longrightarrow> jwt_decode (Signed k p) key now = Inl JWTError"
  by (simp add: jwt_decode_def)

lemma decode_expired:
  "map_of p ''exp'' = Some (JInt x) \<Longrightarrow> x < now \<Longrightarrow>
     jwt_decode (Signed key p) key now = Inl ExpiredSignatureError"
  by (simp add: jwt_decode_def)

lemma created_password_reset:
  "create_password_reset_token st t e = Inr tok \<Longrightarrow>
     \<exists>p. tok = Signed (secret_key st) p \<and> map_of p ''type'' = Some (JStr ''password_reset'')"
  by (auto simp: create_password_reset_token_def jwt_encode_def Let_def split: if_splits)

lemma created_email_verification:
  "create_email_verification_token st t e = Inr tok \<Longrightarrow>
     \<exists>p. tok = Signed (secret_key st) p \<and> map_of p ''type'' = Some (JStr ''email_verification'')"
  by (auto simp: create_email_verification_token_def jwt_encode_def Let_def split: if_splits)

lemma created_email_change:
  "create_email_change_token st t i e = Inr tok \<Longrightarrow>
     \<exists>p. tok = Signed (secret_key st) p \<and> map_of p ''type'' = Some (JStr ''email_change'')"
  by (auto simp: create_email_change_token_def jwt_encode_def Let_def split: if_splits)

lemma created_account_deletion:
  "\<exists>p. create_account_deletion_token st t i = Signed (secret_key st) p
       \<and> map_of p ''type'' = Some (JStr ''account_deletion'')"
  by (simp add: create_account_deletion_token_def jwt_encode_def Let_def)

text \<open>
  C7. A token issued for one purpose is answered with \<^verbatim>\<open>None\<close>, and with no
  exception, by the verifiers of the three other purposes (twelve cross-checks), whenever
  it was issued and whenever it is checked; and each of the four verifiers answers
  \<^verbatim>\<open>None\<close> on a string that is no token, on a token signed under another key and on
  a token whose expiry lies in the past.
\<close>

theorem purpose_isolation:
  "(create_password_reset_token st t1 e1 = Inr tok1 \<longrightarrow>
      verify_email_verification_token st now tok1 = None \<and>
      verify_email_change_token st now tok1 = Inr None \<and>
      verify_account_deletion_token st now tok1 = Inr None)
   \<and> (create_email_verification_token st t2 e2 = Inr tok2 \<longrightarrow>
      verify_password_reset_token st now tok2 = None \<and>
      verify_email_change_token st now tok2 = Inr None \<and>
      verify_account_deletion_token st now tok2 = Inr None)
   \<and> (create_email_change_token st t3 i3 e3 = Inr tok3 \<longrightarrow>
      verify_password_reset_token st now tok3 = None \<and>
      verify_email_verification_token st now tok3 = None \<and>
      verify_account_deletion_token st now tok3 = Inr None)
   \<and> (verify_password_reset_token st now (create_account_deletion_token st t4 i4) = None \<and>
      verify_email_verification_token st now (create_account_deletion_token st t4 i4) = None \<and>
      verify_email_change_token st now (create_account_deletion_token st t4 i4) = Inr None)
   \<and> (verify_password_reset_token st now (Malformed s) = None \<and>
      verify_email_verification_token st now (Malformed s) = None \<and>
      verify_email_change_token st now (Malformed s) = Inr None \<and>
      verify_account_deletion_token st now (Malformed s) = Inr None)
   \<and> (k \<noteq> secret_key st \<longrightarrow>
      verify_password_reset_token st now (Signed k p) = None \<and>
      verify_email_verification_token st now (Signed k p) = None \<and>
      verify_email_change_token st now (Signed k p) = Inr None \<and>
      verify_account_deletion_token st now (Signed k p) = Inr None)
   \<and> (map_of q ''exp'' = Some (JInt x) \<and> x < now \<longrightarrow>
      verify_password_reset_token st now (Signed (secret_key st) q) = None \<and>
      verify_email_verification_token st now (Signed (secret_key st) q) = None \<and>
      verify_email_change_token st now (Signed (secret_key st) q) = Inr None \<and>
      verify_account_deletion_token st now (Signed (secret_key st) q) = Inr None)"
proof (intro conjI impI)
  assume "create_password_reset_token st t1 e1 = Inr tok1"
  then obtain p where p: "tok1 = Signed (secret_key st) p"
      "map_of p ''type'' = Some (JStr ''password_reset'')"
    by (auto dest: created_password_reset)
  show "verify_email_verification_token st now tok1 = None"
    unfolding p(1) by (rule wrong_type_rejected(2) [OF p(2)]) simp
  show "verify_email_change_token st now tok1 = Inr None"
    unfolding p(1) by (rule wrong_type_rejected(3) [OF p(2)]) simp
  show "verify_account_deletion_token st now tok1 = Inr None"
    unfolding p(1) by (rule wrong_type_rejected(4) [OF p(2)]) simp
next
  assume "create_email_verification_token st t2 e2 = Inr tok2"
  then obtain p where p: "tok2 = Signed (secret_key st) p"
      "map_of p ''type'' = Some (JStr ''email_verification'')"
    by (auto dest: created_email_verification)
  show "verify_password_reset_token st now tok2 = None"
    unfolding p(1) by (rule wrong_type_rejected(1) [OF p(2)]) simp
  show "verify_email_change_token st now tok2 = Inr None"
    unfolding p(1) by (rule wrong_type_rejected(3) [OF p(2)]) simp
  show "verify_account_deletion_token st now tok2 = Inr None"
    unfolding p(1) by (rule wrong_type_rejected(4) [OF p(2)]) simp
next
  assume "create_email_change_token st t3 i3 e3 = Inr tok3"
  then obtain p where p: "tok3 = Signed (secret_key st) p"
      "map_of p ''type'' = Some (JStr ''email_change'')"
    by (auto dest: created_email_change)
  show "verify_password_reset_token st now tok3 = None"
    unfolding p(1) by (rule wrong_type_rejected(1) [OF p(2)]) simp
  show "verify_email_verification_token st now tok3 = None"
    unfolding p(1) by (rule wrong_type_rejected(2) [OF p(2)]) simp
  show "verify_account_deletion_token st now tok3 = Inr None"
    unfolding p(1) by (rule wrong_type_rejected(4) [OF p(2)]) simp
next
  obtain p where p: "create_account_deletion_token st t4 i4 = Signed (secret_key st) p"
      "map_of p ''type'' = Some (JStr ''account_deletion'')"
    using created_account_deletion by blast
  show "verify_password_reset_token st now (create_account_deletion_token st t4 i4) = None"
    unfolding p(1) by (rule wrong_type_rejected(1) [OF p(2)]) simp
  show "verify_email_verification_token st now (create_account_deletion_token st t4 i4) = None"
    unfolding p(1) by (rule wrong_type_rejected(2) [OF p(2)]) simp
  show "verify_email_change_token st now (create_account_deletion_token st t4 i4) = Inr None"
    unfolding p(1) by (rule wrong_type_rejected(3) [OF p(2)]) simp
next
  show "verify_password_reset_token st now (Malformed s) = None"
    "verify_email_verification_token st now (Malformed s) = None"
    "verify_email_change_token st now (Malformed s) = Inr None"
    "verify_account_deletion_token st now (Malformed s) = Inr None"
    by (rule decode_fails_rejected [OF decode_malformed])+
next
  assume "k \<noteq> secret_key st"
  then have d: "jwt_decode (Signed k p) (secret_key st) now = Inl JWTError"
    by (rule decode_other_key)
  show "verify_password_reset_token st now (Signed k p) = None"
    "verify_email_verification_token st now (Signed k p) = None"
    "verify_email_change_token st now (Signed k p) = Inr None"
    "verify_account_deletion_token st now (Signed k p) = Inr None"
    by (rule decode_fails_rejected [OF d])+
next
  assume "map_of q ''exp'' = Some (JInt x) \<and> x < now"
  then have d: "jwt_decode (Signed (secret_key st) q) (secret_key st) now = Inl ExpiredSignatureError"
    by (simp add: decode_expired)
  show "verify_password_reset_token st now (Signed (secret_key st) q) = None"
    "verify_email_verification_token st now (Signed (secret_key st) q) = None"
    "verify_email_change_token st now (Signed (secret_key st) q) = Inr None"
    "verify_account_deletion_token st now (Signed (secret_key st) q) = Inr None"
    by (rule decode_fails_rejected [OF d])+
qed

lemma py_str_1: "py_str 1 = ''1''"
  by code_simp

lemma demo_tokens:
  "create_password_reset_token st0 0 ''ana@eco.org'' = Inr demo_reset_token"
  "create_email_verification_token st0 0 ''ana@eco.org'' = Inr demo_verification_token"
  "create_email_change_token st0 0 1 ''ana@eco.org'' = Inr demo_change_token"
  "create_account_deletion_token st0 0 1 = demo_deletion_token"
  using demo_email py_str_1
  by (simp_all add: create_password_reset_token_def create_email_verification_token_def
        create_email_change_token_def create_account_deletion_token_def jwt_encode_def
        st0_def hours24_def RESET_TOKEN_EXPIRE_MINUTES_def EMAIL_CHANGE_TOKEN_EXPIRE_HOURS_def
        ACCOUNT_DELETION_TOKEN_EXPIRE_HOURS_def demo_reset_token_def
        demo_verification_token_def demo_change_token_def demo_deletion_token_def)

theorem purpose_isolation_witness:
  "create_password_reset_token st0 0 ''ana@eco.org'' = Inr demo_reset_token
   \<and> create_email_verification_token st0 0 ''ana@eco.org'' = Inr demo_verification_token
   \<and> create_email_change_token st0 0 1 ''ana@eco.org'' = Inr demo_change_token
   \<and> ''x'' \<noteq> secret_key st0
   \<and> (map_of [(''exp'', JInt 10), (''type'', JStr ''password_reset'')] ''exp'' = Some (JInt 10)
        \<and> (10::int) < 100)
   \<and> verify_email_verification_token st0 100 demo_reset_token = None
   \<and> verify_email_change_token st0 100 demo_reset_token = Inr None
   \<and> verify_account_deletion_token st0 100 demo_reset_token = Inr None
   \<and> verify_password_reset_token st0 100 demo_verification_token = None
   \<and> verify_email_change_token st0 100 demo_verification_token = Inr None
   \<and> verify_account_deletion_token st0 100 demo_verification_token = Inr None
   \<and> verify_password_reset_token st0 100 demo_change_token = None
   \<and> verify_email_verification_token st0 100 demo_change_token = None
   \<and> verify_account_deletion_token st0 100 demo_change_token = Inr None
   \<and> verify_password_reset_token st0 100 (Signed ''x'' []) = None
   \<and> verify_account_deletion_token st0 100 (Signed ''x'' []) = Inr None
   \<and> verify_password_reset_token st0 100
         (Signed (secret_key st0) [(''exp'', JInt 10), (''type'', JStr ''password_reset'')]) = None"
proof -
  have k: "''x'' \<noteq> secret_key st0" by (simp add: st0_def)
  have x: "map_of [(''exp'', JInt 10), (''type'', JStr ''password_reset'')] ''exp'' = Some (JInt 10)
        \<and> (10::int) < 100" by simp
  from purpose_isolation
    [where st = st0 and now = 100
       and ?t1.0 = 0 and ?e1.0 = "''ana@eco.org''" and ?tok1.0 = demo_reset_token
       and ?t2.0 = 0 and ?e2.0 = "''ana@eco.org''" and ?tok2.0 = demo_verification_token
       and ?t3.0 = 0 and ?i3.0 = 1 and ?e3.0 = "''ana@eco.org''" and ?tok3.0 = demo_change_token
       and ?t4.0 = 0 and ?i4.0 = 1 and s = "''junk''" and k = "''x''" and p = "[]"
       and q = "[(''exp'', JInt 10), (''type'', JStr ''password_reset'')]" and x = 10]
    demo_tokens(1-3) k x
  show ?thesis by simp
qed

text \<open>
  The verifiers are not constant: each accepts the token of its own purpose, and a signed
  claim set whose subject is a list would make \<^verbatim>\<open>int(user_id)\<close> raise.
\<close>

lemma own_purpose_accepted:
  "verify_password_reset_token st0 100 demo_reset_token = Some (JStr ''ana@eco.org'')"
  "verify_email_verification_token st0 100 demo_verification_token = Some (JStr ''ana@eco.org'')"
  "verify_email_change_token st0 100 demo_change_token = Inr (Some (1, JStr ''ana@eco.org''))"
  "verify_account_deletion_token st0 100 demo_deletion_token = Inr (Some 1)"
  by code_simp+

lemma list_subject_raises:
  "verify_account_deletion_token st0 100
     (Signed ''k'' [(''sub'', JList [JInt 1]), (''type'', JStr ''account_deletion'')])
   = Inl TypeError"
  by code_simp

section \<open>Invariant I1\<close>

lemma row_ok_later: "row_ok t u \<Longrightarrow> t \<le> now \<Longrightarrow> row_ok now u"
  by (auto simp: row_ok_def)

lemma rows_ok_later:
  "\<forall>r\<in>set d. row_ok t r \<Longrightarrow> t \<le> now \<Longrightarrow> \<forall>r\<in>set d. row_ok now r"
  by (auto simp: row_ok_def)

lemma row_ok_active:
  "deletion_requested_at u = None \<Longrightarrow> deletion_scheduled_at u = None \<Longrightarrow> row_ok t u"
  by (simp add: row_ok_def I1_def)

lemma db_update_rows: "r \<in> set (db_update u' d) \<Longrightarrow> r = u' \<or> r \<in> set d"
  by (auto simp: db_update_def split: if_splits)

lemma db_update_ok:
  assumes "\<forall>r\<in>set d. row_ok t r" and "row_ok t u'"
  shows "\<forall>r\<in>set (db_update u' d). row_ok t r"
  using assms by (auto dest: db_update_rows)

lemma request_rows:
  assumes "r \<in> set (fst (snd (request_account_deletion st now current_user user_id d)))"
  shows "r \<in> set d \<or>
         (\<exists>u. r = u\<lparr>deletion_requested_at := Some now,
                        deletion_scheduled_at := Some (now + hours24)\<rparr>)"
  using assms
  by (auto simp: request_account_deletion_def Let_def split: option.splits if_splits
        dest!: db_update_rows)

lemma confirm_rows:
  assumes "r \<in> set (fst (snd (confirm_account_deletion st now token_data d)))"
  shows "r \<in> set d \<or>
         (\<exists>u\<in>set d. deletion_requested_at u \<noteq> None \<and>
                    r = u\<lparr>deletion_scheduled_at := Some (now + hours24)\<rparr>)"
  using assms
  by (auto simp: confirm_account_deletion_def Let_def split: option.splits if_splits sum.splits
        dest!: db_update_rows get_user_by_id_SomeD)

lemma cancel_rows:
  assumes "r \<in> set (fst (snd (cancel_account_deletion current_user user_id d)))"
  shows "r \<in> set d \<or>
         (\<exists>u. r = u\<lparr>deletion_requested_at := None, deletion_scheduled_at := None\<rparr>)"
  using assms
  by (auto simp: cancel_account_deletion_def Let_def split: option.splits if_splits
        dest!: db_update_rows)

lemma login_rows:
  assumes "r \<in> set (fst (snd (login_for_access_token pwd_verify st now name password d)))"
  shows "r \<in> set d \<or>
         (\<exists>u. r = u\<lparr>last_login := Some now, deletion_requested_at := None,
                        deletion_scheduled_at := None\<rparr>) \<or>
         (\<exists>u\<in>set d. r = u\<lparr>last_login := Some now\<rparr>)"
proof (cases "authenticate_user pwd_verify d name password")
  case None
  with assms show ?thesis by (simp add: login_for_access_token_def)
next
  case (Some u)
  then have "u \<in> set d" by (simp add: authenticate_user_SomeD)
  with assms show ?thesis
    unfolding login_for_access_token_def Some
    by (auto simp: Let_def split: if_splits sum.splits dest!: db_update_rows)
qed

lemma request_ok:
  assumes "\<forall>r\<in>set d. row_ok now r"
  shows "\<forall>r\<in>set (fst (snd (request_account_deletion st now current_user user_id d))). row_ok now r"
proof
  fix r assume "r \<in> set (fst (snd (request_account_deletion st now current_user user_id d)))"
  then consider (old) "r \<in> set d"
    | (new) u where "r = u\<lparr>deletion_requested_at := Some now,
                               deletion_scheduled_at := Some (now + hours24)\<rparr>"
    by (blast dest: request_rows)
  then show "row_ok now r"
  proof cases
    case old
    with assms show ?thesis by simp
  next
    case new
    then show ?thesis by (simp add: row_ok_def I1_def hours24_def)
  qed
qed

lemma confirm_ok:
  assumes "\<forall>r\<in>set d. row_ok now r"
  shows "\<forall>r\<in>set (fst (snd (confirm_account_deletion st now token_data d))). row_ok now r"
proof
  fix r assume "r \<in> set (fst (snd (confirm_account_deletion st now token_data d)))"
  then consider (old) "r \<in> set d"
    | (new) u where "u \<in> set d" "deletion_requested_at u \<noteq> None"
        "r = u\<lparr>deletion_scheduled_at := Some (now + hours24)\<rparr>"
    by (blast dest: confirm_rows)
  then show "row_ok now r"
  proof cases
    case old
    with assms show ?thesis by simp
  next
    case new
    from assms new(1) have "row_ok now u" by simp
    with new(2) show ?thesis unfolding new(3) by (auto simp: row_ok_def I1_def hours24_def)
  qed
qed

lemma cancel_ok:
  assumes "\<forall>r\<in>set d. row_ok now r"
  shows "\<forall>r\<in>set (fst (snd (cancel_account_deletion current_user user_id d))). row_ok now r"
proof
  fix r assume "r \<in> set (fst (snd (cancel_account_deletion current_user user_id d)))"
  then consider (old) "r \<in> set d"
    | (new) u where "r = u\<lparr>deletion_requested_at := None, deletion_scheduled_at := None\<rparr>"
    by (blast dest: cancel_rows)
  then show "row_ok now r"
  proof cases
    case old
    with assms show ?thesis by simp
  next
    case new
    then show ?thesis by (simp add: row_ok_def I1_def)
  qed
qed

lemma login_ok:
  assumes "\<forall>r\<in>set d. row_ok now r"
  shows "\<forall>r\<in>set (fst (snd (login_for_access_token pwd_verify st now name password d))). row_ok now r"
proof
  fix r assume "r \<in> set (fst (snd (login_for_access_token pwd_verify st now name password d)))"
  then consider (old) "r \<in> set d"
    | (cleared) u where "r = u\<lparr>last_login := Some now, deletion_requested_at := None,
                                   deletion_scheduled_at := None\<rparr>"
    | (seen) u where "u \<in> set d" "r = u\<lparr>last_login := Some now\<rparr>"
    by (blast dest: login_rows)
  then show "row_ok now r"
  proof cases
    case old
    with assms show ?thesis by simp
  next
    case cleared
    then show ?thesis by (simp add: row_ok_def I1_def)
  next
    case seen
    from assms seen(1) have "row_ok now u" by simp
    then show ?thesis unfolding seen(2) by (auto simp: row_ok_def I1_def split: option.splits)
  qed
qed

lemma sweep_ok:
  assumes "\<forall>r\<in>set d. row_ok now r"
  shows "\<forall>r\<in>set (fst (process_pending_deletions now d)). row_ok now r"
  using assms by (simp add: process_pending_deletions_def Let_def fold_db_delete)

lemma fold_update_ok:
  assumes "\<forall>r\<in>set d. row_ok t r" and "\<forall>u\<in>set us. row_ok t (f u)"
  shows "\<forall>r\<in>set (fold (\<lambda>u. db_update (f u)) us d). row_ok t r"
  using assms
proof (induction us arbitrary: d)
  case Nil
  then show ?case by simp
next
  case (Cons u us)
  from Cons.prems(2) have head: "row_ok t (f u)" and rest: "\<forall>u\<in>set us. row_ok t (f u)"
    by simp_all
  from Cons.prems(1) head have "\<forall>r\<in>set (db_update (f u) d). row_ok t r"
    by (rule db_update_ok)
  then have "\<forall>r\<in>set (fold (\<lambda>u. db_update (f u)) us (db_update (f u) d)). row_ok t r"
    using rest by (rule Cons.IH)
  then show ?case by simp
qed

lemma cleanup_ok:
  assumes "\<forall>r\<in>set d. row_ok now r"
  shows "\<forall>r\<in>set (fst (cleanup_expired_requests now d)). row_ok now r"
proof -
  have "\<forall>u\<in>set (filter (request_expired now) d). row_ok now (u\<lparr>deletion_requested_at := None\<rparr>)"
    by (auto simp: request_expired_def row_ok_def I1_def split: option.splits)
  with assms show ?thesis
    unfolding cleanup_expired_requests_def Let_def fst_conv
    by (rule fold_update_ok)
qed

lemma reachable_rows_ok:
  "reachable pwd_verify st s \<Longrightarrow> \<forall>r\<in>set (fst s). row_ok (snd s) r"
proof (induction rule: reachable.induct)
  case (start d t)
  then show ?case by (simp add: row_ok_active)
next
  case (register d t now u)
  from register.IH register.hyps(2) have "\<forall>r\<in>set d. row_ok now r"
    unfolding fst_conv snd_conv by (rule rows_ok_later)
  moreover from register.hyps(3,4) have "row_ok now u" by (rule row_ok_active)
  ultimately show ?case by simp
next
  case (request d t now current_user user_id)
  from request.IH request.hyps(2) have "\<forall>r\<in>set d. row_ok now r"
    unfolding fst_conv snd_conv by (rule rows_ok_later)
  then show ?case unfolding fst_conv snd_conv by (rule request_ok)
next
  case (confirm d t now token_data)
  from confirm.IH confirm.hyps(2) have "\<forall>r\<in>set d. row_ok now r"
    unfolding fst_conv snd_conv by (rule rows_ok_later)
  then show ?case unfolding fst_conv snd_conv by (rule confirm_ok)
next
  case (cancel d t now current_user user_id)
  from cancel.IH cancel.hyps(2) have "\<forall>r\<in>set d. row_ok now r"
    unfolding fst_conv snd_conv by (rule rows_ok_later)
  then show ?case unfolding fst_conv snd_conv by (rule cancel_ok)
next
  case (login d t now name password)
  from login.IH login.hyps(2) have "\<forall>r\<in>set d. row_ok now r"
    unfolding fst_conv snd_conv by (rule rows_ok_later)
  then show ?case unfolding fst_conv snd_conv by (rule login_ok)
next
  case (sweep d t now)
  from sweep.IH sweep.hyps(2) have "\<forall>r\<in>set d. row_ok now r"
    unfolding fst_conv snd_conv by (rule rows_ok_later)
  then show ?case unfolding fst_conv snd_conv by (rule sweep_ok)
next
  case (cleanup d t now)
  from cleanup.IH cleanup.hyps(2) have "\<forall>r\<in>set d. row_ok now r"
    unfolding fst_conv snd_conv by (rule rows_ok_later)
  then show ?case unfolding fst_conv snd_conv by (rule cleanup_ok)
qed

text \<open>
  C8. In every state reachable by registrations, deletion requests, confirmations,
  cancellations, logins, sweeps and clean-ups, every account satisfies I1.
\<close>

theorem lifecycle_preserves_I1:
  assumes "reachable pwd_verify st (d, t)"
  shows "\<forall>u\<in>set d. I1 u"
  using reachable_rows_ok [OF assms] by (simp add: row_ok_def)

theorem lifecycle_preserves_I1_witness:
  "reachable demo_verify st0 ([account 1 ''ana'' True (Some 0) (Some 90000)], 3600)
   \<and> I1 (account 1 ''ana'' True (Some 0) (Some 90000))"
proof -
  have s0: "reachable demo_verify st0 ([account 1 ''ana'' True None None], 0)"
    by (rule reachable.start) (simp add: account_def)
  have r: "fst (snd (request_account_deletion st0 0 (account 1 ''ana'' True None None) 1
                       [account 1 ''ana'' True None None]))
           = [account 1 ''ana'' True (Some 0) (Some 86400)]"
    by (simp add: request_account_deletion_def check_user_authorization_def get_user_by_id_def
          db_update_def account_def hours24_def Let_def)
  have s1: "reachable demo_verify st0 ([account 1 ''ana'' True (Some 0) (Some 86400)], 0)"
    using reachable.request [OF s0, of 0 "account 1 ''ana'' True None None" 1] r by simp
  have ne: "\<not> empty_token (create_account_deletion_token st0 0 1)"
    by (simp add: empty_token_def create_account_deletion_token_def jwt_encode_def)
  have c: "fst (snd (confirm_account_deletion st0 3600 (Some (create_account_deletion_token st0 0 1))
                       [account 1 ''ana'' True (Some 0) (Some 86400)]))
           = [account 1 ''ana'' True (Some 0) (Some 90000)]"
    using ne
    by (simp add: confirm_account_deletion_def demo_token get_user_by_id_def account_def
          db_update_def hours24_def Let_def)
  have s2: "reachable demo_verify st0 ([account 1 ''ana'' True (Some 0) (Some 90000)], 3600)"
    using reachable.confirm [OF s1, of 3600 "Some (create_account_deletion_token st0 0 1)"] c
    by simp
  from lifecycle_preserves_I1 [OF s2] s2 show ?thesis by simp
qed

text \<open>
  The steps take the clock as not running backwards. A confirmation at a time more than 24
  hours before the stored request time would leave a row that breaks I1.
\<close>

lemma confirm_with_clock_set_back:
  "I1 (account 1 ''ana'' True (Some 200000) (Some 286400))
   \<and> fst (snd (confirm_account_deletion st0 3600 (Some (create_account_deletion_token st0 0 1))
                  [account 1 ''ana'' True (Some 200000) (Some 286400)]))
     = [account 1 ''ana'' True (Some 200000) (Some 90000)]
   \<and> \<not> I1 (account 1 ''ana'' True (Some 200000) (Some 90000))"
proof -
  have ne: "\<not> empty_token (create_account_deletion_token st0 0 1)"
    by (simp add: empty_token_def create_account_deletion_token_def jwt_encode_def)
  then show ?thesis
    by (simp add: confirm_account_deletion_def demo_token get_user_by_id_def account_def
          db_update_def hours24_def Let_def I1_def)
qed

section \<open>Cleaning up unconfirmed requests\<close>









text \<open>
  Off the reachable tables the two differ. The code compares \<^verbatim>\<open>deletion_requested_at\<close>
  with \<open>now\<close> itself, not with \<open>now\<close> less 24 hours as its comments say: on a row
  written with a request one second old and no schedule, it clears the request, where the
  specification with a \<open>maxAge\<close> of 24 hours leaves it.
\<close>

lemma cleanup_differs_off_reachable:
  "cleanup_expired_requests 1000 [account 1 ''ana'' True (Some 999) None]
     = ([account 1 ''ana'' True None None], 1)
   \<and> CleanupAbandonedRequests_spec 1000 86400 [account 1 ''ana'' True (Some 999) None]
     = ([account 1 ''ana'' True (Some 999) None], 0)"
  by (simp add: cleanup_expired_requests_def request_expired_def CleanupAbandonedRequests_spec_def
        abandoned_def account_def db_update_def Let_def)

end
